theory Spec2Isabelle
  imports Main
begin

section \<open>Python strings\<close>

text \<open>
  A text is a \<^typ>\<open>string\<close>: the list of the bytes of its UTF-8 encoding. Substring
  search, replacement and the negated character classes of the patterns below give on
  the encoding what Python gives on code points. The classes \<open>\<bsol>d\<close> and \<open>\<bsol>s\<close> and
  \<open>str.lower\<close> are the ASCII ones: a byte above 127 is no digit, no blank and has no case.
\<close>

abbreviation sq :: string where
  "sq \<equiv> [CHR 0x27]"

abbreviation nl :: string where
  "nl \<equiv> [CHR 0x0A]"

text \<open>\<open>s.startswith(p)\<close>\<close>

fun startswith :: "string \<Rightarrow> string \<Rightarrow> bool" where
  "startswith s [] = True"
| "startswith [] (p # ps) = False"
| "startswith (c # cs) (p # ps) = (c = p \<and> startswith cs ps)"

text \<open>\<open>p in s\<close>\<close>

fun str_in :: "string \<Rightarrow> string \<Rightarrow> bool" where
  "str_in p [] = (p = [])"
| "str_in p (c # cs) = (startswith (c # cs) p \<or> str_in p cs)"

text \<open>
  \<open>s.replace(old, new)\<close>: the occurrences of \<open>old\<close> are found from the left and do not
  overlap; an empty \<open>old\<close> matches before every character and at the end.
\<close>

function replace_str :: "string \<Rightarrow> string \<Rightarrow> string \<Rightarrow> string" where
  "replace_str old new [] = (if old = [] then new else [])"
| "replace_str old new (c # cs) =
     (if old = [] then new @ c # replace_str old new cs
      else if startswith (c # cs) old
        then new @ replace_str old new (drop (length old) (c # cs))
        else c # replace_str old new cs)"
  by pat_completeness auto
termination
  by (relation "measure (\<lambda>(old, new, s). length s)") (auto simp: Suc_le_eq)

text \<open>\<open>sep.join(parts)\<close>\<close>

fun join :: "string \<Rightarrow> string list \<Rightarrow> string" where
  "join sep [] = []"
| "join sep [x] = x"
| "join sep (x # y # ys) = x @ sep @ join sep (y # ys)"

text \<open>\<open>s.lower()\<close>\<close>

definition lower_char :: "char \<Rightarrow> char" where
  "lower_char c =
     (if 65 \<le> (of_char c :: nat) \<and> (of_char c :: nat) \<le> 90
      then char_of ((of_char c :: nat) + 32) else c)"

definition lower :: "string \<Rightarrow> string" where
  "lower s = map lower_char s"

text \<open>
  \<open>re.escape(s)\<close>, as from Python 3.7: a backslash before each of the characters
  \<open>( ) [ ] { } ? * + - | ^ $ \<bsol> . & ~ #\<close>, the space and the tab, newline, carriage return,
  vertical tab and form feed.
\<close>

definition special_chars :: "char list" where
  "special_chars = ''()[]{}?*+-|^$.&~# '' @
     [CHR 0x5C, CHR 0x09, CHR 0x0A, CHR 0x0D, CHR 0x0B, CHR 0x0C]"

definition re_escape :: "string \<Rightarrow> string" where
  "re_escape s = concat (map (\<lambda>c. if c \<in> set special_chars then [CHR 0x5C, c] else [c]) s)"

section \<open>Regular expressions\<close>

text \<open>
  The patterns of the converter are sequences of single characters and character
  classes, some of them repeated, with capturing groups that are not nested. A pattern
  is a list of items; \<open>GOpen\<close> and \<open>GClose\<close> mark where a group starts and ends.
\<close>

datatype cclass =
    Quote       \<comment> \<open>\<open>['\"]\<close>\<close>
  | NotQuote    \<comment> \<open>\<open>[^'\"]\<close>\<close>
  | NotRParen   \<comment> \<open>\<open>[^)]\<close>\<close>
  | NotComma    \<comment> \<open>\<open>[^,]\<close>\<close>
  | Alpha       \<comment> \<open>\<open>[a-zA-Z]\<close>\<close>
  | Alnum       \<comment> \<open>\<open>[a-zA-Z0-9]\<close>\<close>
  | Digit       \<comment> \<open>\<open>\<bsol>d\<close>\<close>
  | Space       \<comment> \<open>\<open>\<bsol>s\<close>\<close>

datatype atom = Chr char | Cls cclass

datatype item = One atom | Star atom | Plus atom | GOpen | GClose

definition is_alpha :: "char \<Rightarrow> bool" where
  "is_alpha c = (let n = (of_char c :: nat) in (65 \<le> n \<and> n \<le> 90) \<or> (97 \<le> n \<and> n \<le> 122))"

definition is_digit :: "char \<Rightarrow> bool" where
  "is_digit c = (let n = (of_char c :: nat) in 48 \<le> n \<and> n \<le> 57)"

definition is_space :: "char \<Rightarrow> bool" where
  "is_space c = (let n = (of_char c :: nat) in (9 \<le> n \<and> n \<le> 13) \<or> (28 \<le> n \<and> n \<le> 32))"

fun in_class :: "cclass \<Rightarrow> char \<Rightarrow> bool" where
  "in_class Quote c = (c = CHR 0x27 \<or> c = CHR 0x22)"
| "in_class NotQuote c = (c \<noteq> CHR 0x27 \<and> c \<noteq> CHR 0x22)"
| "in_class NotRParen c = (c \<noteq> CHR '')'')"
| "in_class NotComma c = (c \<noteq> CHR '','')"
| "in_class Alpha c = is_alpha c"
| "in_class Alnum c = (is_alpha c \<or> is_digit c)"
| "in_class Digit c = is_digit c"
| "in_class Space c = is_space c"

fun amatch :: "atom \<Rightarrow> char \<Rightarrow> bool" where
  "amatch (Chr d) c = (c = d)"
| "amatch (Cls k) c = in_class k c"

text \<open>
  \<open>rmatch p s n marks\<close> matches the pattern \<open>p\<close> at the start of \<open>s\<close>, as the
  backtracking matcher of \<open>re\<close> does: a repetition takes as many characters as it can
  and gives them back one by one while the rest of the pattern fails. \<open>n\<close> counts the
  characters consumed so far, \<open>marks\<close> collects the positions of the group marks. The
  result is the length of the match and the marks, or \<open>None\<close>.
\<close>

fun rmatch :: "item list \<Rightarrow> string \<Rightarrow> nat \<Rightarrow> nat list \<Rightarrow> (nat \<times> nat list) option" where
  "rmatch [] s n marks = Some (n, marks)"
| "rmatch (GOpen # p) s n marks = rmatch p s n (marks @ [n])"
| "rmatch (GClose # p) s n marks = rmatch p s n (marks @ [n])"
| "rmatch (One a # p) [] n marks = None"
| "rmatch (One a # p) (c # cs) n marks =
     (if amatch a c then rmatch p cs (Suc n) marks else None)"
| "rmatch (Plus a # p) [] n marks = None"
| "rmatch (Plus a # p) (c # cs) n marks =
     (if amatch a c then rmatch (Star a # p) cs (Suc n) marks else None)"
| "rmatch (Star a # p) [] n marks = rmatch p [] n marks"
| "rmatch (Star a # p) (c # cs) n marks =
     (if amatch a c
      then (case rmatch (Star a # p) cs (Suc n) marks of
              Some r \<Rightarrow> Some r
            | None \<Rightarrow> rmatch p (c # cs) n marks)
      else rmatch p (c # cs) n marks)"

text \<open>The captured groups, from the marks \<open>[open\<^sub>1, close\<^sub>1, open\<^sub>2, close\<^sub>2, \<dots>]\<close>.\<close>

fun groups :: "string \<Rightarrow> nat list \<Rightarrow> string list" where
  "groups s (a # b # ms) = take (b - a) (drop a s) # groups s ms"
| "groups s ms = []"

text \<open>
  The matches of a pattern in a text, from the left, not overlapping: each with the
  matched text and its groups. After a match the search goes on where the match ended
  (one character further when the match is empty; no pattern below matches the empty
  text).
\<close>

fun re_scan :: "item list \<Rightarrow> string \<Rightarrow> (string \<times> string list) list" where
  "re_scan p [] =
     (case rmatch p [] 0 [] of
        None \<Rightarrow> []
      | Some (e, marks) \<Rightarrow> [(take e [], groups [] marks)])"
| "re_scan p (c # cs) =
     (case rmatch p (c # cs) 0 [] of
        None \<Rightarrow> re_scan p cs
      | Some (e, marks) \<Rightarrow>
          (take e (c # cs), groups (c # cs) marks) # re_scan p (drop (e - 1) cs))"

text \<open>
  \<open>re.findall(p, s)\<close>: for a pattern without a group the matched texts, for a pattern
  with one group the texts of the group, for a pattern with more groups the tuples of
  the groups.
\<close>

datatype fitem = FStr string | FTuple "string list"

fun findall_item :: "string \<times> string list \<Rightarrow> fitem" where
  "findall_item (w, []) = FStr w"
| "findall_item (w, [g]) = FStr g"
| "findall_item (w, gs) = FTuple gs"

definition findall :: "item list \<Rightarrow> string \<Rightarrow> fitem list" where
  "findall p s = map findall_item (re_scan p s)"

text \<open>\<open>re.search(p, s)\<close> as a truth value\<close>

definition re_search :: "item list \<Rightarrow> string \<Rightarrow> bool" where
  "re_search p s = (re_scan p s \<noteq> [])"

text \<open>
  \<open>re.sub(p, repl, s)\<close> for a replacement text without group references: every match
  from the left, not overlapping, gives way to \<open>repl\<close>.
\<close>

fun re_sub :: "item list \<Rightarrow> string \<Rightarrow> string \<Rightarrow> string" where
  "re_sub p repl [] = (case rmatch p [] 0 [] of None \<Rightarrow> [] | Some r \<Rightarrow> repl)"
| "re_sub p repl (c # cs) =
     (case rmatch p (c # cs) 0 [] of
        None \<Rightarrow> c # re_sub p repl cs
      | Some (e, marks) \<Rightarrow>
          (if e = 0 then repl @ c # re_sub p repl cs
           else repl @ re_sub p repl (drop (e - 1) cs)))"

text \<open>A text as a pattern: every character stands for itself.\<close>

definition lit :: "string \<Rightarrow> item list" where
  "lit s = map (\<lambda>c. One (Chr c)) s"

section \<open>The conversion tables\<close>

text \<open>
  The dictionary \<open>conversions\<close> of \<open>convert_cypress_code\<close>: for each category its rules
  (Cypress text, Playwright text) in the order of the dictionary, which is the order
  \<open>.items()\<close> runs through.
\<close>

type_synonym rule = "string \<times> string"

definition basic_syntax :: "rule list" where
  "basic_syntax =
    [(''cy.get('', ''page.locator(''),
     (''cy.visit('', ''await page.goto(''),
     (''cy.url()'', ''page.url()''),
     (''.type('', ''.fill(''),
     (''.click()'', ''.click()''),
     (''.should('be.visible')'', ''await expect(...).toBeVisible()''),
     (''.should('contain','', ''await expect(...).toContainText(''),
     (''describe('', ''test.describe(''),
     (''it('', ''test(''),
     (''beforeEach('', ''test.beforeEach(async ({ page }) => {'')]"

definition assertions :: "rule list" where
  "assertions =
    [(''cy.url().should('include','', ''await expect(page).toHaveURL(/.*''),
     (''cy.url().should('eq','', ''await expect(page).toHaveURL(''),
     (''cy.url().should('equal','', ''await expect(page).toHaveURL(''),
     (''cy.url().should('contain','', ''await expect(page).toHaveURL(/.*''),
     (''cy.url().should('match','', ''await expect(page).toHaveURL(''),
     (''.should('be.visible')'', ''await expect(locator).toBeVisible()''),
     (''.should('not.exist')'', ''await expect(locator).not.toBeVisible()''),
     (''.should('contain','', ''await expect(locator).toContainText(''),
     (''.should('have.text','', ''await expect(locator).toHaveText(''),
     (''.should('have.value','', ''await expect(locator).toHaveValue(''),
     (''.should('have.length','', ''await expect(locator).toHaveCount(''),
     (''.should('be.empty')'', ''await expect(locator).toBeEmpty()''),
     (''.should('be.enabled')'', ''await expect(locator).toBeEnabled()''),
     (''.should('be.disabled')'', ''await expect(locator).toBeDisabled()''),
     (''.should('have.class','', ''await expect(locator).toHaveClass('')]"

definition commands :: "rule list" where
  "commands =
    [(''cy.get('', ''page.locator(''),
     (''cy.visit('', ''await page.goto(''),
     (''cy.url()'', ''page.url()''),
     (''cy.intercept('', ''await page.route(''),
     (''cy.fixture('', ''// Use test data factory instead''),
     (''cy.wrap('', ''// Use direct variable assignment instead''),
     (''cy.contains('', ''page.getByText(''),
     (''.each('', ''.map(async (element, index) => {''),
     (''.as('' @ sq, ''// Use variable assignment instead of alias'')]"

definition waiting :: "rule list" where
  "waiting =
    [(''.should('be.visible')'', ''await expect(locator).toBeVisible()''),
     (''.should('exist')'', ''await expect(locator).toBeAttached()''),
     (''.should('not.exist')'', ''await expect(locator).not.toBeAttached()''),
     (''cy.get('', ''await page.locator(''),
     (''cy.waitUntil('', ''await page.waitForFunction(''),
     (''cy.wait().then('', ''// Use direct async/await instead'')]"

definition advanced :: "rule list" where
  "advanced =
    [(''cy.request('', ''await request.newContext().request(''),
     (''cy.intercept('GET','', ''await page.route('GET', ''),
     (''cy.intercept('POST','', ''await page.route('POST', ''),
     (''cy.intercept('PUT','', ''await page.route('PUT', ''),
     (''cy.intercept('DELETE','', ''await page.route('DELETE', ''),
     (''cy.wait('@'', ''await page.waitForResponse(''),
     (''cy.task('', ''// Use custom functions or direct Node.js code''),
     (''Cypress.Commands.add('', ''// Convert to Page Object Model method''),
     (''Cypress.env('', ''process.env.''),
     (''window.localStorage.setItem('', ''await page.evaluate(() => localStorage.setItem(''),
     (''window.localStorage.getItem('', ''await page.evaluate(() => localStorage.getItem(''),
     (''.its('response.statusCode')'', ''// Use response object directly''),
     (''.fixture('', ''// Use JSON import or test data factory'')]"

definition url_navigation :: "rule list" where
  "url_navigation =
    [(''cy.visit('', ''await page.goto(''),
     (''cy.url()'', ''page.url()''),
     (''cy.go('back')'', ''await page.goBack()''),
     (''cy.go('forward')'', ''await page.goForward()''),
     (''cy.reload()'', ''await page.reload()''),
     (''cy.url().should('include','', ''await expect(page).toHaveURL(/.*''),
     (''cy.url().should('eq','', ''await expect(page).toHaveURL(''),
     (''cy.url().should('equal','', ''await expect(page).toHaveURL(''),
     (''cy.url().should('contain','', ''await expect(page).toHaveURL(/.*''),
     (''cy.url().should('match','', ''await expect(page).toHaveURL(''),
     (''cy.location('search').should('include','', ''await expect(page).toHaveURL(/.*''),
     (''cy.location('pathname').should('include','', ''await expect(page).toHaveURL(/.*''),
     (''cy.location('hash').should('include','', ''await expect(page).toHaveURL(/.*'')]"

definition architectural :: "rule list" where
  "architectural =
    [(''cy.window().then('', ''await page.evaluate(''),
     (''cy.window().its('', ''await page.evaluate(() => window.''),
     (''cy.window()'', ''await page.evaluate(() => window)''),
     (''Cypress.Commands.add('', ''// Convert to Page Object Model method or helper function''),
     (''.invoke('', ''await page.evaluate(''),
     (''.its('', ''// Use page.evaluate() for property access''),
     (''cy.stub('', ''// Use page.route() for network mocking instead''),
     (''cy.spy('', ''// Use page.evaluate() for function monitoring''),
     (''cy.wrap('', ''// Use direct async/await instead of wrapping''),
     (''.as('' @ sq, ''// Use variable assignment: const alias = ''),
     (''cy.get('@'', ''// Use the stored variable directly''),
     (''.should('have.property','', ''// Use page.evaluate() to check properties''),
     (''.should('have.been.called'', ''// Use page.route() with callback tracking'')]"

definition fixtures_commands :: "rule list" where
  "fixtures_commands =
    [(''cy.fixture('', ''// Import JSON directly or use data loading utility''),
     (''Cypress.Commands.add('', ''// Convert to helper function or Page Object method''),
     (''cy.task('', ''// Use direct function calls or utility classes''),
     (''Cypress.env('', ''process.env.''),
     (''.as('' @ sq, ''// Use variable assignment instead of alias''),
     (''cy.get('@'', ''// Use the stored variable directly''),
     (''beforeEach('', ''test.beforeEach(async ({ page }) => {''),
     (''before('', ''test.beforeAll(async ({ browser }) => {'')]"

definition conversions :: "(string \<times> rule list) list" where
  "conversions =
    [(''basic_syntax'', basic_syntax),
     (''assertions'', assertions),
     (''commands'', commands),
     (''waiting'', waiting),
     (''advanced'', advanced),
     (''url_navigation'', url_navigation),
     (''architectural'', architectural),
     (''fixtures_commands'', fixtures_commands)]"

definition categories_to_apply :: "string list" where
  "categories_to_apply =
    [''basic_syntax'', ''assertions'', ''commands'', ''waiting'', ''advanced'',
     ''url_navigation'', ''architectural'', ''fixtures_commands'']"

section \<open>The conversion state and its explanation lines\<close>

text \<open>
  The converter carries the code converted so far and the list of its explanation
  lines. A line starts with the bullet and has the arrow between its two texts; both
  are written here as the bytes they have in the source file.
\<close>

type_synonym conv_state = "string \<times> string list"

definition bullet :: string where
  "bullet = [CHR 0xC3, CHR 0xA2, CHR 0xE2, CHR 0x82, CHR 0xAC, CHR 0xC2, CHR 0xA2]"

definition arrow :: string where
  "arrow = [CHR 0xC3, CHR 0xA2, CHR 0xE2, CHR 0x80, CHR 0xA0, CHR 0xE2, CHR 0x80, CHR 0x99]"

definition change_line :: "string \<Rightarrow> string \<Rightarrow> string" where
  "change_line a b = bullet @ '' '' @ a @ '' '' @ arrow @ '' '' @ b"

text \<open>One dictionary rule: \<open>if cypress_pattern in converted_code: replace, append\<close>.\<close>

fun apply_rule :: "rule \<Rightarrow> conv_state \<Rightarrow> conv_state" where
  "apply_rule (cypress_pattern, playwright_pattern) (code, parts) =
     (if str_in cypress_pattern code
      then (replace_str cypress_pattern playwright_pattern code,
            parts @ [change_line cypress_pattern playwright_pattern])
      else (code, parts))"

definition apply_rules :: "rule list \<Rightarrow> conv_state \<Rightarrow> conv_state" where
  "apply_rules rules st = fold apply_rule rules st"

text \<open>\<open>for category in categories_to_apply: if category in conversions: \<dots>\<close>\<close>

definition apply_category :: "string \<Rightarrow> conv_state \<Rightarrow> conv_state" where
  "apply_category category st =
     (case map_of conversions category of
        Some rules \<Rightarrow> apply_rules rules st
      | None \<Rightarrow> st)"

section \<open>The pattern steps of \<open>_convert_advanced_patterns\<close>\<close>

text \<open>
  What a call can raise. The source has no \<open>raise\<close>; an exception can only come from
  a loop over the result of \<open>findall\<close> that takes an item for a text (or unpacks it into
  two) when the item has another shape.
\<close>

datatype py_error = TypeError | ValueError

type_synonym step = "conv_state \<Rightarrow> py_error + conv_state"

text \<open>\<open>for match in matches: \<dots>\<close>, the body working on the text \<open>match\<close>.\<close>

fun for_each_str :: "(string \<Rightarrow> conv_state \<Rightarrow> conv_state) \<Rightarrow> fitem list \<Rightarrow> step" where
  "for_each_str body [] st = Inr st"
| "for_each_str body (FStr m # ms) st = for_each_str body ms (body m st)"
| "for_each_str body (FTuple t # ms) st = Inl TypeError"

text \<open>
  \<open>for a, b in matches: \<dots>\<close>: a tuple of two texts unpacks, and so does a text of two
  characters; every other item raises \<open>ValueError\<close>.
\<close>

fun unpack2 :: "fitem \<Rightarrow> py_error + (string \<times> string)" where
  "unpack2 (FTuple [a, b]) = Inr (a, b)"
| "unpack2 (FStr [a, b]) = Inr ([a], [b])"
| "unpack2 m = Inl ValueError"

fun for_each_pair :: "(string \<Rightarrow> string \<Rightarrow> conv_state \<Rightarrow> conv_state) \<Rightarrow> fitem list \<Rightarrow> step" where
  "for_each_pair body [] st = Inr st"
| "for_each_pair body (m # ms) st =
     (case unpack2 m of
        Inl e \<Rightarrow> Inl e
      | Inr (a, b) \<Rightarrow> for_each_pair body ms (body a b st))"

text \<open>\<open>code = code.replace(old_pattern, new_pattern); explanations.append(line)\<close>\<close>

fun replace_note :: "string \<Rightarrow> string \<Rightarrow> string \<Rightarrow> conv_state \<Rightarrow> conv_state" where
  "replace_note old_pattern new_pattern line (code, explanations) =
     (replace_str old_pattern new_pattern code, explanations @ [line])"

text \<open>The tail \<open>\<bsol>s*['\"]([^'\"]+)['\"]\<bsol>)\<close> that many patterns share.\<close>

definition quoted_arg :: "item list" where
  "quoted_arg = [Star (Cls Space), One (Cls Quote), GOpen, Plus (Cls NotQuote), GClose,
     One (Cls Quote), One (Chr CHR '')'')]"

text \<open>The tail \<open>\<bsol>s*(\<bsol>d+)\<bsol>)\<close>.\<close>

definition number_arg :: "item list" where
  "number_arg = [Star (Cls Space), GOpen, Plus (Cls Digit), GClose, One (Chr CHR '')'')]"

subsection \<open>\<open>cy.contains\<close>\<close>

definition contains_basic_pattern :: "item list" where
  "contains_basic_pattern =
     lit ''cy.contains('' @
     [One (Cls Quote), GOpen, Plus (Cls NotQuote), GClose, One (Cls Quote), One (Chr CHR '')'')]"

definition contains_basic_body :: "string \<Rightarrow> conv_state \<Rightarrow> conv_state" where
  "contains_basic_body m =
     (let old_pattern = ''cy.contains('' @ sq @ m @ sq @ '')'';
          new_pattern = ''page.getByText('' @ sq @ m @ sq @ '')''
      in replace_note old_pattern new_pattern (change_line old_pattern new_pattern))"

definition contains_basic_step :: step where
  "contains_basic_step st =
     for_each_str contains_basic_body (findall contains_basic_pattern (fst st)) st"

definition contains_selector_pattern :: "item list" where
  "contains_selector_pattern =
     lit ''cy.contains('' @
     [One (Cls Quote), GOpen, Plus (Cls NotQuote), GClose, One (Cls Quote),
      Star (Cls Space), One (Chr CHR '',''), Star (Cls Space),
      One (Cls Quote), GOpen, Plus (Cls NotQuote), GClose, One (Cls Quote), One (Chr CHR '')'')]"

definition contains_selector_body :: "string \<Rightarrow> string \<Rightarrow> conv_state \<Rightarrow> conv_state" where
  "contains_selector_body selector text =
     (let old_pattern = ''cy.contains('' @ sq @ selector @ sq @ '', '' @ sq @ text @ sq @ '')'';
          new_pattern = ''page.locator('' @ sq @ selector @ sq @ '').getByText('' @ sq @ text @ sq @ '')''
      in replace_note old_pattern new_pattern (change_line old_pattern new_pattern))"

definition contains_selector_step :: step where
  "contains_selector_step st =
     for_each_pair contains_selector_body (findall contains_selector_pattern (fst st)) st"

subsection \<open>Unidentified \<open>cy.*\<close> commands\<close>

definition unidentified_cy_pattern :: "item list" where
  "unidentified_cy_pattern =
     [GOpen] @ lit ''cy.'' @ [One (Cls Alpha), Star (Cls Alnum), One (Chr CHR ''(''),
       Star (Cls NotRParen), One (Chr CHR '')''), GClose]"

definition known_patterns :: "string list" where
  "known_patterns =
    [''cy.get('', ''cy.visit('', ''cy.url('', ''cy.wait('', ''cy.intercept('',
     ''cy.contains('', ''cy.fixture('', ''cy.wrap('', ''cy.window('', ''cy.location('',
     ''cy.go('', ''cy.reload('', ''cy.request('', ''cy.task('', ''cy.stub('',
     ''cy.spy('', ''cy.waitUntil('']"

definition todo_comment :: "string \<Rightarrow> string" where
  "todo_comment cy_command =
     ''// TODO: Manual review needed - possible custom command: '' @ cy_command"

fun unidentified_body :: "string \<Rightarrow> conv_state \<Rightarrow> conv_state" where
  "unidentified_body cy_command (code, explanations) =
     (let is_unidentified = \<not> list_ex (\<lambda>known. startswith cy_command known) known_patterns
      in if is_unidentified \<and> str_in cy_command code
         then (let new_pattern = todo_comment cy_command
               in (replace_str cy_command new_pattern code,
                   explanations @ [change_line cy_command new_pattern]))
         else (code, explanations))"

definition unidentified_step :: step where
  "unidentified_step st =
     for_each_str unidentified_body (findall unidentified_cy_pattern (fst st)) st"

subsection \<open>\<open>cy.location\<close> and \<open>cy.url\<close> assertions\<close>

definition to_have_url_regex :: "string \<Rightarrow> string \<Rightarrow> string" where
  "to_have_url_regex pre m = ''await expect(page).toHaveURL(/.*'' @ pre @ re_escape m @ ''.*/)''"

definition location_search_pattern :: "item list" where
  "location_search_pattern = lit ''cy.location('search').should('include','' @ quoted_arg"

definition location_search_body :: "string \<Rightarrow> conv_state \<Rightarrow> conv_state" where
  "location_search_body m =
     (let old_pattern = ''cy.location('search').should('include', '' @ sq @ m @ sq @ '')'';
          new_pattern = to_have_url_regex ([CHR 0x5C] @ ''?.*'') m
      in replace_note old_pattern new_pattern (change_line old_pattern new_pattern))"

definition location_search_step :: step where
  "location_search_step st =
     for_each_str location_search_body (findall location_search_pattern (fst st)) st"

definition location_pathname_pattern :: "item list" where
  "location_pathname_pattern = lit ''cy.location('pathname').should('include','' @ quoted_arg"

definition location_pathname_body :: "string \<Rightarrow> conv_state \<Rightarrow> conv_state" where
  "location_pathname_body m =
     (let old_pattern = ''cy.location('pathname').should('include', '' @ sq @ m @ sq @ '')'';
          new_pattern = to_have_url_regex [] m
      in replace_note old_pattern new_pattern (change_line old_pattern new_pattern))"

definition location_pathname_step :: step where
  "location_pathname_step st =
     for_each_str location_pathname_body (findall location_pathname_pattern (fst st)) st"

definition location_hash_pattern :: "item list" where
  "location_hash_pattern = lit ''cy.location('hash').should('include','' @ quoted_arg"

definition location_hash_body :: "string \<Rightarrow> conv_state \<Rightarrow> conv_state" where
  "location_hash_body m =
     (let old_pattern = ''cy.location('hash').should('include', '' @ sq @ m @ sq @ '')'';
          new_pattern = to_have_url_regex ''#'' m
      in replace_note old_pattern new_pattern (change_line old_pattern new_pattern))"

definition location_hash_step :: step where
  "location_hash_step st =
     for_each_str location_hash_body (findall location_hash_pattern (fst st)) st"

definition include_pattern :: "item list" where
  "include_pattern = lit ''cy.url().should('include','' @ quoted_arg"

definition include_body :: "string \<Rightarrow> conv_state \<Rightarrow> conv_state" where
  "include_body m =
     (let old_pattern = ''cy.url().should('include', '' @ sq @ m @ sq @ '')'';
          new_pattern = to_have_url_regex [] m
      in replace_note old_pattern new_pattern (change_line old_pattern new_pattern))"

definition include_step :: step where
  "include_step st = for_each_str include_body (findall include_pattern (fst st)) st"

definition eq_pattern :: "item list" where
  "eq_pattern = lit ''cy.url().should('eq','' @ quoted_arg"

definition eq_body :: "string \<Rightarrow> conv_state \<Rightarrow> conv_state" where
  "eq_body m =
     (let old_pattern = ''cy.url().should('eq', '' @ sq @ m @ sq @ '')'';
          new_pattern = ''await expect(page).toHaveURL('' @ sq @ m @ sq @ '')''
      in replace_note old_pattern new_pattern (change_line old_pattern new_pattern))"

definition eq_step :: step where
  "eq_step st = for_each_str eq_body (findall eq_pattern (fst st)) st"

definition contain_pattern :: "item list" where
  "contain_pattern = lit ''cy.url().should('contain','' @ quoted_arg"

definition contain_body :: "string \<Rightarrow> conv_state \<Rightarrow> conv_state" where
  "contain_body m =
     (let old_pattern = ''cy.url().should('contain', '' @ sq @ m @ sq @ '')'';
          new_pattern = to_have_url_regex [] m
      in replace_note old_pattern new_pattern (change_line old_pattern new_pattern))"

definition contain_step :: step where
  "contain_step st = for_each_str contain_body (findall contain_pattern (fst st)) st"

subsection \<open>\<open>cy.wait\<close>\<close>

definition wait_its_should_pattern :: "item list" where
  "wait_its_should_pattern =
     lit ''cy.wait('@'' @ [GOpen, Plus (Cls NotQuote), GClose] @
     lit (sq @ '').its('response.statusCode').should('eq','') @ number_arg"

definition wait_its_should_body :: "string \<Rightarrow> string \<Rightarrow> conv_state \<Rightarrow> conv_state" where
  "wait_its_should_body alias status_code =
     (let old_pattern = ''cy.wait('@'' @ alias @ sq @
            '').its('response.statusCode').should('eq', '' @ status_code @ '')'';
          new_pattern = ''expect((await page.waitForResponse('' @ sq @ ''**/'' @ alias @ ''**'' @ sq @
            '')).status()).toBe('' @ status_code @ '')''
      in replace_note old_pattern new_pattern (change_line old_pattern new_pattern))"

definition wait_its_should_step :: step where
  "wait_its_should_step st =
     for_each_pair wait_its_should_body (findall wait_its_should_pattern (fst st)) st"

definition wait_its_pattern :: "item list" where
  "wait_its_pattern =
     lit ''cy.wait('@'' @ [GOpen, Plus (Cls NotQuote), GClose] @
     lit (sq @ '').its('response.statusCode')'')"

definition wait_its_body :: "string \<Rightarrow> conv_state \<Rightarrow> conv_state" where
  "wait_its_body m =
     (let old_pattern = ''cy.wait('@'' @ m @ sq @ '').its('response.statusCode')'';
          new_pattern = ''(await page.waitForResponse('' @ sq @ ''**/'' @ m @ ''**'' @ sq @ '')).status()''
      in replace_note old_pattern new_pattern (change_line old_pattern new_pattern))"

definition wait_its_step :: step where
  "wait_its_step st = for_each_str wait_its_body (findall wait_its_pattern (fst st)) st"

definition wait_alias_pattern :: "item list" where
  "wait_alias_pattern =
     lit ''cy.wait('@'' @ [GOpen, Plus (Cls NotQuote), GClose] @ lit (sq @ '')'')"

definition wait_alias_body :: "string \<Rightarrow> conv_state \<Rightarrow> conv_state" where
  "wait_alias_body m =
     (let old_pattern = ''cy.wait('@'' @ m @ sq @ '')'';
          new_pattern =
            (if str_in ''api'' (lower m) \<or> str_in ''request'' (lower m) \<or> str_in ''get'' (lower m)
             then ''await page.waitForResponse('' @ sq @ ''**/*'' @
                    lower (replace_str ''data'' [] (replace_str ''api'' [] (replace_str ''get'' [] m))) @
                    ''*'' @ sq @ '')''
             else ''await page.waitForResponse('' @ sq @ ''**/'' @ m @ ''**'' @ sq @ '')'')
      in replace_note old_pattern new_pattern (change_line old_pattern new_pattern))"

definition wait_alias_step :: step where
  "wait_alias_step st = for_each_str wait_alias_body (findall wait_alias_pattern (fst st)) st"

definition wait_number_pattern :: "item list" where
  "wait_number_pattern =
     lit ''cy.wait('' @ [GOpen, Plus (Cls Digit), GClose, One (Chr CHR '')'')]"

definition wait_number_body :: "string \<Rightarrow> conv_state \<Rightarrow> conv_state" where
  "wait_number_body m =
     (let old_pattern = ''cy.wait('' @ m @ '')'';
          new_pattern = ''await page.waitForTimeout('' @ m @ '')''
      in replace_note old_pattern new_pattern
           (change_line old_pattern new_pattern @ '' (consider using auto-wait instead)''))"

definition wait_number_step :: step where
  "wait_number_step st = for_each_str wait_number_body (findall wait_number_pattern (fst st)) st"

subsection \<open>Status codes\<close>

definition its_response_pattern :: "item list" where
  "its_response_pattern = lit ''.its('response.statusCode')''"

fun its_response_step :: step where
  "its_response_step (code, explanations) =
     (if re_search its_response_pattern code
      then Inr (re_sub its_response_pattern ''.status()'' code,
                explanations @ [change_line ''.its('response.statusCode')'' ''.status()''])
      else Inr (code, explanations))"

definition status_should_pattern :: "item list" where
  "status_should_pattern = lit ''.status().should('eq','' @ number_arg"

definition status_should_body :: "string \<Rightarrow> conv_state \<Rightarrow> conv_state" where
  "status_should_body m =
     (let old_pattern = ''.status().should('eq', '' @ m @ '')'';
          new_pattern = ''.status()).toBe('' @ m @ '')''
      in replace_note old_pattern new_pattern
           (change_line old_pattern (''expect(...'' @ new_pattern)))"

definition status_should_step :: step where
  "status_should_step st =
     for_each_str status_should_body (findall status_should_pattern (fst st)) st"

definition should_eq_pattern :: "item list" where
  "should_eq_pattern = lit ''.should('eq','' @ number_arg"

definition should_eq_body :: "string \<Rightarrow> conv_state \<Rightarrow> conv_state" where
  "should_eq_body m =
     (let old_pattern = ''.should('eq', '' @ m @ '')'';
          new_pattern = '' === '' @ m
      in replace_note old_pattern new_pattern
           (change_line old_pattern new_pattern @ '' (direct comparison)''))"

definition should_eq_step :: step where
  "should_eq_step st = for_each_str should_eq_body (findall should_eq_pattern (fst st)) st"

subsection \<open>\<open>cy.waitUntil\<close>, aliases, \<open>.each\<close> and \<open>cy.wrap\<close>\<close>

definition wait_until_pattern :: "item list" where
  "wait_until_pattern =
     lit ''cy.waitUntil(() => '' @ [GOpen, Plus (Cls NotRParen), GClose, One (Chr CHR '')'')]"

definition wait_until_body :: "string \<Rightarrow> conv_state \<Rightarrow> conv_state" where
  "wait_until_body m =
     (let old_pattern = ''cy.waitUntil(() => '' @ m @ '')'';
          new_pattern = ''await page.waitForFunction(() => '' @ m @ '')''
      in replace_note old_pattern new_pattern (change_line old_pattern new_pattern))"

definition wait_until_step :: step where
  "wait_until_step st = for_each_str wait_until_body (findall wait_until_pattern (fst st)) st"

definition alias_pattern :: "item list" where
  "alias_pattern =
     lit ''.as('' @
     [One (Cls Quote), GOpen, Plus (Cls NotQuote), GClose, One (Cls Quote), One (Chr CHR '')'')]"

definition alias_body :: "string \<Rightarrow> conv_state \<Rightarrow> conv_state" where
  "alias_body m =
     (let old_pattern = ''.as('' @ sq @ m @ sq @ '')'';
          new_pattern = ''// Store in variable: const '' @ m @ '' = ''
      in replace_note old_pattern new_pattern
           (bullet @ '' Alias .as('' @ sq @ m @ sq @ '') '' @ arrow @ '' Use variable assignment''))"

definition alias_step :: step where
  "alias_step st = for_each_str alias_body (findall alias_pattern (fst st)) st"

definition get_alias_pattern :: "item list" where
  "get_alias_pattern =
     lit ''cy.get('@'' @ [GOpen, Plus (Cls NotQuote), GClose] @ lit (sq @ '')'')"

definition get_alias_body :: "string \<Rightarrow> conv_state \<Rightarrow> conv_state" where
  "get_alias_body m =
     (let old_pattern = ''cy.get('@'' @ m @ sq @ '')'';
          new_pattern = m
      in replace_note old_pattern new_pattern
           (bullet @ '' '' @ old_pattern @ '' '' @ arrow @ '' Use variable '' @ m))"

definition get_alias_step :: step where
  "get_alias_step st = for_each_str get_alias_body (findall get_alias_pattern (fst st)) st"

definition each_pattern :: "item list" where
  "each_pattern =
     lit ''.each(($'' @ [GOpen, Plus (Cls NotComma), GClose, One (Chr CHR '',''), Star (Cls Space),
       GOpen, Plus (Cls NotRParen), GClose, One (Chr CHR '')''), Star (Cls Space)] @
     lit ''=>'' @ [Star (Cls Space), One (Chr CHR ''{'')]"

fun each_step :: step where
  "each_step (code, explanations) =
     (if re_search each_pattern code
      then Inr (code, explanations @
             [change_line ''.each()'' ''Use for loop with locator.count() and locator.nth()''])
      else Inr (code, explanations))"

definition wrap_pattern :: "item list" where
  "wrap_pattern =
     lit ''cy.wrap($'' @ [GOpen, Plus (Cls NotRParen), GClose, One (Chr CHR '')'')]"

definition wrap_body :: "string \<Rightarrow> conv_state \<Rightarrow> conv_state" where
  "wrap_body m =
     (let old_pattern = ''cy.wrap($'' @ m @ '')'';
          new_pattern = ''// Use direct locator methods on '' @ m
      in replace_note old_pattern new_pattern
           (bullet @ '' cy.wrap($'' @ m @ '') '' @ arrow @ '' Use direct locator operations''))"

definition wrap_step :: step where
  "wrap_step st = for_each_str wrap_body (findall wrap_pattern (fst st)) st"

section \<open>\<open>_convert_advanced_patterns\<close>\<close>

fun run_steps :: "step list \<Rightarrow> step" where
  "run_steps [] st = Inr st"
| "run_steps (f # fs) st = (case f st of Inl e \<Rightarrow> Inl e | Inr st' \<Rightarrow> run_steps fs st')"

text \<open>The steps in the order the function runs them.\<close>

definition advanced_steps :: "step list" where
  "advanced_steps =
    [contains_basic_step, contains_selector_step, unidentified_step,
     location_search_step, location_pathname_step, location_hash_step,
     include_step, eq_step, contain_step,
     wait_its_should_step, wait_its_step, wait_alias_step, wait_number_step,
     its_response_step, status_should_step, should_eq_step,
     wait_until_step, alias_step, get_alias_step, each_step, wrap_step]"

definition convert_advanced_patterns :: "string \<Rightarrow> py_error + conv_state" where
  "convert_advanced_patterns code = run_steps advanced_steps (code, [])"

section \<open>\<open>convert_cypress_code\<close>\<close>

text \<open>
  \<open>converted_code, url_explanations = _convert_advanced_patterns(converted_code);
  explanation_parts.extend(url_explanations)\<close>
\<close>

fun apply_advanced :: step where
  "apply_advanced (converted_code, explanation_parts) =
     (case convert_advanced_patterns converted_code of
        Inl e \<Rightarrow> Inl e
      | Inr (code, url_explanations) \<Rightarrow> Inr (code, explanation_parts @ url_explanations))"

text \<open>
  The branch on the conversion type: all categories, or the one named, each followed by
  the advanced patterns; any other conversion type takes neither branch.
\<close>

definition apply_conversions :: "string \<Rightarrow> string \<Rightarrow> py_error + conv_state" where
  "apply_conversions cypress_code conversion_type =
     (if conversion_type = ''full_conversion''
      then apply_advanced (fold apply_category categories_to_apply (cypress_code, []))
      else (case map_of conversions conversion_type of
              Some rules \<Rightarrow> apply_advanced (apply_rules rules (cypress_code, []))
            | None \<Rightarrow> Inr (cypress_code, [])))"

text \<open>\<open>Add async/await if not present\<close>\<close>

definition needs_async :: "string \<Rightarrow> bool" where
  "needs_async converted_code =
     (\<not> str_in ''await '' converted_code \<and>
      (str_in ''page.'' converted_code \<or> str_in ''expect('' converted_code))"

fun add_async :: "conv_state \<Rightarrow> conv_state" where
  "add_async (converted_code, explanation_parts) =
     (if needs_async converted_code
      then (''// Add async/await syntax'' @ nl @ converted_code,
            explanation_parts @ [bullet @ '' Added async/await syntax requirement''])
      else (converted_code, explanation_parts))"

text \<open>\<open>Add import statement for full conversion\<close>\<close>

definition import_line :: string where
  "import_line = ''import { test, expect } from '' @ sq @ ''@playwright/test'' @ sq @ '';'' @ nl @ nl"

definition needs_import :: "string \<Rightarrow> string \<Rightarrow> bool" where
  "needs_import conversion_type converted_code =
     (conversion_type = ''full_conversion'' \<and>
      (str_in ''test('' converted_code \<or> str_in ''expect('' converted_code) \<and>
      \<not> startswith converted_code ''import'')"

fun add_import :: "string \<Rightarrow> conv_state \<Rightarrow> conv_state" where
  "add_import conversion_type (converted_code, explanation_parts) =
     (if needs_import conversion_type converted_code
      then (import_line @ converted_code,
            explanation_parts @ [bullet @ '' Added required Playwright imports''])
      else (converted_code, explanation_parts))"

text \<open>The code and the explanation lines at the point where the explanation is built.\<close>

definition convert_parts :: "string \<Rightarrow> string \<Rightarrow> py_error + conv_state" where
  "convert_parts cypress_code conversion_type =
     (case apply_conversions cypress_code conversion_type of
        Inl e \<Rightarrow> Inl e
      | Inr st \<Rightarrow> Inr (add_import conversion_type (add_async st)))"

definition explanation_text :: "string list \<Rightarrow> string" where
  "explanation_text explanation_parts =
     (if explanation_parts \<noteq> []
      then ''**Conversion Changes:**'' @ nl @ join nl explanation_parts
      else ''No direct conversions needed.'')"

text \<open>
  \<open>Prevent accidental 'test.test.beforeEach' due to repeated replacement\<close>: one
  \<open>replace\<close>. The line it appends to \<open>explanation_parts\<close> comes after the explanation is
  built and is not returned.
\<close>

definition fix_before_each :: "string \<Rightarrow> string" where
  "fix_before_each converted_code =
     (if str_in ''test.test.beforeEach'' converted_code
      then replace_str ''test.test.beforeEach'' ''test.beforeEach'' converted_code
      else converted_code)"

text \<open>The call: the converted code and the explanation, or the exception raised.\<close>

definition convert_cypress_code :: "string \<Rightarrow> string \<Rightarrow> py_error + (string \<times> string)" where
  "convert_cypress_code cypress_code conversion_type =
     (case convert_parts cypress_code conversion_type of
        Inl e \<Rightarrow> Inl e
      | Inr (converted_code, explanation_parts) \<Rightarrow>
          Inr (fix_before_each converted_code, explanation_text explanation_parts))"

text \<open>The conversion types the interface offers in its dropdown.\<close>

definition conversion_types :: "string list" where
  "conversion_types =
    [''full_conversion'', ''basic_syntax'', ''assertions'', ''commands'', ''waiting'',
     ''advanced'', ''url_navigation'', ''architectural'', ''fixtures_commands'']"

section \<open>What the converter takes for Cypress syntax\<close>




text \<open>The number of groups of a pattern.\<close>

fun is_mark :: "item \<Rightarrow> bool" where
  "is_mark GOpen = True"
| "is_mark GClose = True"
| "is_mark i = False"

definition ngroups :: "item list \<Rightarrow> nat" where
  "ngroups p = length (filter is_mark p) div 2"

section \<open>The converter raises no exception\<close>

text \<open>
  A match of a pattern leaves one mark for every group mark of the pattern, so
  \<open>findall\<close> gives texts for a pattern with one group and pairs for a pattern with two:
  the loops of the advanced steps never meet an item of the wrong shape.
\<close>

lemma rmatch_marks:
  "rmatch p s n marks = Some (e, marks') \<Longrightarrow>
   length marks' = length marks + length (filter is_mark p)"
  by (induction p s n marks arbitrary: e marks' rule: rmatch.induct)
     (auto split: if_splits option.splits)

lemma length_groups: "length (groups s ms) = length ms div 2"
  by (induction s ms rule: groups.induct) auto

lemma rmatch_groups:
  "rmatch p s 0 [] = Some (e, marks) \<Longrightarrow> length (groups t marks) = ngroups p"
  by (simp add: ngroups_def length_groups rmatch_marks)

lemma re_scan_groups:
  "(w, gs) \<in> set (re_scan p s) \<Longrightarrow> length gs = ngroups p"
proof (induction p s rule: re_scan.induct)
  case (1 p)
  then show ?case
    by (cases "rmatch p [] 0 []") (auto simp: rmatch_groups)
next
  case (2 p c cs)
  then show ?case
    by (cases "rmatch p (c # cs) 0 []") (auto simp: rmatch_groups)
qed

lemma findall_one_group:
  assumes "ngroups p \<le> 1" and "m \<in> set (findall p s)"
  shows "\<exists>g. m = FStr g"
proof -
  from assms(2) obtain w gs where wg: "(w, gs) \<in> set (re_scan p s)" and m: "m = findall_item (w, gs)"
    by (auto simp: findall_def)
  from wg have "length gs = ngroups p" by (rule re_scan_groups)
  with assms(1) have "length gs \<le> 1" by simp
  then have "gs = [] \<or> (\<exists>g. gs = [g])"
    by (cases gs) auto
  then show ?thesis using m by auto
qed

lemma findall_two_groups:
  assumes "ngroups p = 2" and "m \<in> set (findall p s)"
  shows "\<exists>a b. m = FTuple [a, b]"
proof -
  from assms(2) obtain w gs where wg: "(w, gs) \<in> set (re_scan p s)" and m: "m = findall_item (w, gs)"
    by (auto simp: findall_def)
  from wg have "length gs = 2" using assms(1) by (simp add: re_scan_groups)
  then obtain a b where "gs = [a, b]"
    by (auto simp: length_Suc_conv numeral_2_eq_2)
  then show ?thesis using m by simp
qed

lemma for_each_str_total:
  "(\<And>m. m \<in> set ms \<Longrightarrow> \<exists>g. m = FStr g) \<Longrightarrow> \<not> isl (for_each_str body ms st)"
proof (induction ms arbitrary: st)
  case Nil
  then show ?case by simp
next
  case (Cons m ms)
  then obtain g where "m = FStr g" by force
  with Cons show ?case by auto
qed

lemma for_each_pair_total:
  "(\<And>m. m \<in> set ms \<Longrightarrow> \<exists>a b. m = FTuple [a, b]) \<Longrightarrow> \<not> isl (for_each_pair body ms st)"
proof (induction ms arbitrary: st)
  case Nil
  then show ?case by simp
next
  case (Cons m ms)
  then obtain a b where "m = FTuple [a, b]" by force
  with Cons show ?case by auto
qed

lemma ngroups_patterns:
  "ngroups contains_basic_pattern = 1"
  "ngroups contains_selector_pattern = 2"
  "ngroups unidentified_cy_pattern = 1"
  "ngroups location_search_pattern = 1"
  "ngroups location_pathname_pattern = 1"
  "ngroups location_hash_pattern = 1"
  "ngroups include_pattern = 1"
  "ngroups eq_pattern = 1"
  "ngroups contain_pattern = 1"
  "ngroups wait_its_should_pattern = 2"
  "ngroups wait_its_pattern = 1"
  "ngroups wait_alias_pattern = 1"
  "ngroups wait_number_pattern = 1"
  "ngroups status_should_pattern = 1"
  "ngroups should_eq_pattern = 1"
  "ngroups wait_until_pattern = 1"
  "ngroups alias_pattern = 1"
  "ngroups get_alias_pattern = 1"
  "ngroups wrap_pattern = 1"
  by (simp_all add: ngroups_def lit_def quoted_arg_def number_arg_def
      contains_basic_pattern_def contains_selector_pattern_def unidentified_cy_pattern_def
      location_search_pattern_def location_pathname_pattern_def location_hash_pattern_def
      include_pattern_def eq_pattern_def contain_pattern_def wait_its_should_pattern_def
      wait_its_pattern_def wait_alias_pattern_def wait_number_pattern_def
      status_should_pattern_def should_eq_pattern_def wait_until_pattern_def
      alias_pattern_def get_alias_pattern_def wrap_pattern_def)

lemma str_step_total:
  "ngroups p = 1 \<Longrightarrow> \<not> isl (for_each_str body (findall p s) st)"
  by (rule for_each_str_total) (rule findall_one_group, simp_all)

lemma pair_step_total:
  "ngroups p = 2 \<Longrightarrow> \<not> isl (for_each_pair body (findall p s) st)"
  by (rule for_each_pair_total) (rule findall_two_groups)

lemma its_response_step_total: "\<not> isl (its_response_step st)"
  by (cases st) simp

lemma each_step_total: "\<not> isl (each_step st)"
  by (cases st) simp

lemma loop_steps_total:
  "\<not> isl (contains_basic_step st)"
  "\<not> isl (contains_selector_step st)"
  "\<not> isl (unidentified_step st)"
  "\<not> isl (location_search_step st)"
  "\<not> isl (location_pathname_step st)"
  "\<not> isl (location_hash_step st)"
  "\<not> isl (include_step st)"
  "\<not> isl (eq_step st)"
  "\<not> isl (contain_step st)"
  "\<not> isl (wait_its_should_step st)"
  "\<not> isl (wait_its_step st)"
  "\<not> isl (wait_alias_step st)"
  "\<not> isl (wait_number_step st)"
  "\<not> isl (status_should_step st)"
  "\<not> isl (should_eq_step st)"
  "\<not> isl (wait_until_step st)"
  "\<not> isl (alias_step st)"
  "\<not> isl (get_alias_step st)"
  "\<not> isl (wrap_step st)"
  unfolding contains_basic_step_def contains_selector_step_def unidentified_step_def
    location_search_step_def location_pathname_step_def location_hash_step_def
    include_step_def eq_step_def contain_step_def wait_its_should_step_def
    wait_its_step_def wait_alias_step_def wait_number_step_def
    status_should_step_def should_eq_step_def wait_until_step_def
    alias_step_def get_alias_step_def wrap_step_def
  by (rule str_step_total pair_step_total, rule ngroups_patterns)+

lemma run_steps_total:
  "list_all (\<lambda>f. \<forall>st. \<not> isl (f st)) fs \<Longrightarrow> \<not> isl (run_steps fs st)"
proof (induction fs arbitrary: st)
  case Nil
  then show ?case by simp
next
  case (Cons f fs)
  then have "\<not> isl (f st)" by (cases st) simp
  then obtain st1 where "f st = Inr st1" by (cases "f st") auto
  with Cons show ?case by simp
qed

lemma convert_advanced_patterns_total: "\<not> isl (convert_advanced_patterns code)"
  unfolding convert_advanced_patterns_def
  by (rule run_steps_total)
     (simp add: advanced_steps_def loop_steps_total its_response_step_total each_step_total)

lemma apply_advanced_total: "\<not> isl (apply_advanced st)"
proof (cases st)
  case (Pair code parts)
  have "\<not> isl (convert_advanced_patterns code)"
    by (rule convert_advanced_patterns_total)
  with Pair show ?thesis
    by (cases "convert_advanced_patterns code") auto
qed

lemma apply_conversions_total: "\<not> isl (apply_conversions code t)"
  unfolding apply_conversions_def
  by (simp add: apply_advanced_total split: option.splits)

lemma convert_parts_total: "\<not> isl (convert_parts code t)"
  using apply_conversions_total[of code t]
  by (cases "apply_conversions code t") (auto simp: convert_parts_def)

lemma convert_cypress_code_total: "\<not> isl (convert_cypress_code code t)"
  using convert_parts_total[of code t]
  by (cases "convert_parts code t") (auto simp: convert_cypress_code_def)

section \<open>Texts the converter leaves alone\<close>













lemma unknown_type_no_rules:
  "t \<notin> set conversion_types \<Longrightarrow> apply_conversions s t = Inr (s, [])"
  unfolding apply_conversions_def conversion_types_def conversions_def
  by simp



section \<open>Second passes and texts without Cypress syntax\<close>







section \<open>Conversion types\<close>

text \<open>
  C3. A conversion type that is neither \<open>full_conversion\<close> nor a category should make
  the call fail. The branch on the conversion type has no \<open>else\<close>: the call returns.
\<close>

theorem unknown_type_counterexample:
  "''bogus'' \<notin> set conversion_types \<and>
   convert_cypress_code ''cy.get(1)'' ''bogus'' =
     Inr (''cy.get(1)'', ''No direct conversions needed.'')"
  by code_simp

text \<open>
  C3, amended. With a conversion type that is neither \<open>full_conversion\<close> nor a category
  the call returns: no rule and no pattern is applied, the async note is added when the
  text asks for it, and \<open>test.test.beforeEach\<close> is replaced.
\<close>

theorem unknown_type_returns:
  assumes "conversion_type \<notin> set conversion_types"
  shows "convert_cypress_code code conversion_type =
     (if needs_async code
      then Inr (fix_before_each (''// Add async/await syntax'' @ nl @ code),
                ''**Conversion Changes:**'' @ nl @ bullet @ '' Added async/await syntax requirement'')
      else Inr (fix_before_each code, ''No direct conversions needed.''))"
proof -
  from assms have "conversion_type \<noteq> ''full_conversion''"
    by (auto simp: conversion_types_def)
  moreover from assms have "apply_conversions code conversion_type = Inr (code, [])"
    by (rule unknown_type_no_rules)
  ultimately show ?thesis
    by (simp add: convert_cypress_code_def convert_parts_def needs_import_def
        explanation_text_def)
qed

theorem unknown_type_returns_witness:
  "''bogus'' \<notin> set conversion_types \<and>
   convert_cypress_code ''page.click()'' ''bogus'' =
     Inr (''// Add async/await syntax'' @ nl @ ''page.click()'',
          ''**Conversion Changes:**'' @ nl @ bullet @ '' Added async/await syntax requirement'')"
proof -
  have t: "''bogus'' \<notin> set conversion_types"
    by code_simp
  have a: "needs_async ''page.click()''"
    by code_simp
  have f: "fix_before_each (''// Add async/await syntax'' @ nl @ ''page.click()'') =
      ''// Add async/await syntax'' @ nl @ ''page.click()''"
    by code_simp
  from unknown_type_returns[OF t, of "''page.click()''"] t a f show ?thesis
    by simp
qed

text \<open>
  C8. For every input text and every conversion type of the interface the call returns
  a converted code and an explanation; it raises no exception.
\<close>

theorem convert_never_raises:
  assumes "conversion_type \<in> set conversion_types"
  shows "\<exists>converted_code explanation.
     convert_cypress_code cypress_code conversion_type = Inr (converted_code, explanation)"
  using convert_cypress_code_total[of cypress_code conversion_type]
  by (cases "convert_cypress_code cypress_code conversion_type") auto

theorem convert_never_raises_witness:
  "''waiting'' \<in> set conversion_types \<and>
   (\<exists>converted_code explanation.
      convert_cypress_code ''cy.wait(3000)'' ''waiting'' = Inr (converted_code, explanation))"
proof -
  have t: "''waiting'' \<in> set conversion_types"
    by (simp add: conversion_types_def)
  from convert_never_raises[OF t] show ?thesis
    using t by blast
qed



section \<open>Concrete conversions\<close>

text \<open>
  C2. The chain \<open>cy.wait('@getData').its('response.statusCode').should('eq', 200)\<close> should
  be converted by the composite rule alone. In a full conversion the dictionary rules
  run first: \<open>it(\<close> fires inside \<open>cy.wait(\<close> and \<open>.its('response.statusCode')\<close> becomes a
  comment, so the composite pattern never matches; the call is flagged as the custom
  command \<open>cy.watest('@getData')\<close> and the generic \<open>.should('eq', N)\<close> step rewrites the rest.
\<close>

theorem wait_chain_full_conversion:
  "(let out = import_line @
         ''// TODO: Manual review needed - possible custom command: cy.watest('@getData'' @ sq @
         '')// Use response object directly === 200'';
        generic_line = change_line ''.should('eq', 200)'' '' === 200'' @ '' (direct comparison)'';
        explanation = ''**Conversion Changes:**'' @ nl @ join nl
          [change_line ''it('' ''test('',
           change_line ''.its('response.statusCode')'' ''// Use response object directly'',
           change_line (''cy.watest('@getData'' @ sq @ '')'')
             (todo_comment (''cy.watest('@getData'' @ sq @ '')'')),
           generic_line,
           bullet @ '' Added required Playwright imports'']
    in convert_cypress_code
         (''cy.wait('@getData'' @ sq @ '').its('response.statusCode').should('eq', 200)'')
         ''full_conversion'' = Inr (out, explanation) \<and>
       \<not> str_in ''waitForResponse'' out \<and>
       \<not> str_in ''toBe(200)'' out \<and>
       str_in generic_line explanation)"
  by code_simp

text \<open>
  On its own, \<open>_convert_advanced_patterns\<close> converts the chain by the composite rule
  and by nothing else, as the comprehensive test of the wait patterns expects.
\<close>

lemma wait_chain_advanced_patterns:
  "convert_advanced_patterns
     (''cy.wait('@getData'' @ sq @ '').its('response.statusCode').should('eq', 200)'') =
   Inr (''expect((await page.waitForResponse('**/getData**'' @ sq @ '')).status()).toBe(200)'',
        [change_line
           (''cy.wait('@getData'' @ sq @ '').its('response.statusCode').should('eq', 200)'')
           (''expect((await page.waitForResponse('**/getData**'' @ sq @ '')).status()).toBe(200)'')])"
  by code_simp


text \<open>
  C6. For the input \<open>cy.url().should('include', '/dashboard')\<close> the output should
  contain \<open>await expect(page).toHaveURL(\<close> and the pattern of the path. In a full
  conversion the rule \<open>cy.url()\<close> of the basic syntax fires first; no URL assertion rule
  matches \<open>page.url().should(\<dots>)\<close>, and the output has no \<open>toHaveURL\<close>.
\<close>

theorem url_include_full_conversion:
  "(let out = ''// Add async/await syntax'' @ nl @
         ''page.url().should('include', '/dashboard'' @ sq @ '')'';
        explanation = ''**Conversion Changes:**'' @ nl @ join nl
          [change_line ''cy.url()'' ''page.url()'',
           bullet @ '' Added async/await syntax requirement'']
    in convert_cypress_code (''cy.url().should('include', '/dashboard'' @ sq @ '')'')
         ''full_conversion'' = Inr (out, explanation) \<and>
       \<not> str_in ''await expect(page).toHaveURL('' out \<and>
       \<not> str_in ''dashboard.*/'' out)"
  by code_simp

text \<open>On its own, \<open>_convert_advanced_patterns\<close> converts the assertion.\<close>

lemma url_include_advanced_patterns:
  "convert_advanced_patterns (''cy.url().should('include', '/dashboard'' @ sq @ '')'') =
   Inr (''await expect(page).toHaveURL(/.*/dashboard.*/)'',
        [change_line (''cy.url().should('include', '/dashboard'' @ sq @ '')'')
           ''await expect(page).toHaveURL(/.*/dashboard.*/)''])"
  by code_simp

text \<open>
  C7. For the input \<open>cy.wait(3000)\<close> the converted output should contain
  \<open>await page.waitForTimeout(3000)\<close> and the changes an advisory note recommending
  auto-wait. In a full conversion the rule \<open>it(\<close> of the basic syntax fires first, inside
  \<open>cy.wait(\<close>; the fixed-wait pattern no longer matches, and the call is flagged as a
  custom command \<open>cy.watest(3000)\<close>: the output has no \<open>waitForTimeout\<close> and the
  explanation no advisory note.
\<close>

theorem wait_number_full_conversion:
  "(let out = import_line @
         ''// TODO: Manual review needed - possible custom command: cy.watest(3000)'';
        explanation = ''**Conversion Changes:**'' @ nl @ join nl
          [change_line ''it('' ''test('',
           change_line ''cy.watest(3000)'' (todo_comment ''cy.watest(3000)''),
           bullet @ '' Added required Playwright imports'']
    in convert_cypress_code ''cy.wait(3000)'' ''full_conversion'' = Inr (out, explanation) \<and>
       \<not> str_in ''await page.waitForTimeout(3000)'' out \<and>
       \<not> str_in ''auto-wait'' explanation)"
  by code_simp

text \<open>
  In the conversion types that have no rule \<open>it(\<close> the fixed wait is converted and the
  advice is given, as the tests of the wait patterns expect.
\<close>

lemma wait_number_waiting:
  "convert_cypress_code ''cy.wait(3000)'' ''waiting'' =
     Inr (''await page.waitForTimeout(3000)'',
          ''**Conversion Changes:**'' @ nl @
          change_line ''cy.wait(3000)'' ''await page.waitForTimeout(3000)'' @
          '' (consider using auto-wait instead)'')"
  by code_simp

text \<open>
  C10. The returned code should never contain \<open>test.test.beforeEach\<close>. The closing
  pass replaces the occurrences once, from the left; a replacement inside
  \<open>test.test.test.beforeEach\<close> leaves \<open>test.test.beforeEach\<close> behind. A full conversion of
  \<open>test.beforeEach(\<close>, where the rule \<open>beforeEach(\<close> fires in two categories, returns it.
\<close>

theorem before_each_artifact_remains:
  "(let out = ''test.test.beforeEach(async ({ page }) => {async ({ page }) => {'';
        explanation = ''**Conversion Changes:**'' @ nl @ join nl
          [change_line ''beforeEach('' ''test.beforeEach(async ({ page }) => {'',
           change_line ''beforeEach('' ''test.beforeEach(async ({ page }) => {'']
    in convert_cypress_code ''test.beforeEach('' ''full_conversion'' = Inr (out, explanation) \<and>
       str_in ''test.test.beforeEach'' out)"
  by code_simp

text \<open>
  The closing pass itself, on a text with overlapping occurrences, in a conversion type
  that applies no rule.
\<close>

lemma before_each_overlap:
  "convert_cypress_code ''test.test.test.beforeEach'' ''waiting'' =
     Inr (''test.test.beforeEach'', ''No direct conversions needed.'')"
  by code_simp

end
